theory Spec2Isabelle
  imports Complex_Main "HOL-Library.Word"
begin

section \<open>Bytes, exceptions and the command registry\<close>

text \<open>
  A Python \<open>bytes\<close> object is a list of 8-bit words. The exceptions the modelled
  code can raise are the constructors of \<open>error\<close>.
\<close>

type_synonym byte = "8 word"
type_synonym bytes = "byte list"

datatype error = ValueError | TypeError | UnicodeEncodeError

text \<open>\<open>bytes([n])\<close>: one byte, or ValueError when \<open>n\<close> is not in \<open>range(256)\<close>.\<close>

definition bytes_of_int :: "int \<Rightarrow> error + bytes" where
  "bytes_of_int n = (if 0 \<le> n \<and> n < 256 then Inr [word_of_int n] else Inl ValueError)"

text \<open>
  A value of the dictionary \<open>OKIDATA_COMMANDS\<close> is either a \<open>bytes\<close> literal or a
  one-argument lambda.
\<close>

datatype entry = Fixed bytes | Parametric "int \<Rightarrow> error + bytes"

text \<open>\<open>lambda n: b"\x1B\x25\x39" + bytes([n])\<close>\<close>

definition set_spacing_n144 :: "int \<Rightarrow> error + bytes" where
  "set_spacing_n144 n =
     (case bytes_of_int n of
        Inl e \<Rightarrow> Inl e
      | Inr b \<Rightarrow> Inr ([0x1B, 0x25, 0x39] @ b))"

text \<open>
  \<open>lambda n: b"\x1B\x25\x53\x30" if n == 0 else b"\x1B\x47" + bytes([n]) + bytes([n])\<close>
\<close>

definition skip_over_perforation :: "int \<Rightarrow> error + bytes" where
  "skip_over_perforation n =
     (if n = 0 then Inr [0x1B, 0x25, 0x53, 0x30]
      else (case bytes_of_int n of
              Inl e \<Rightarrow> Inl e
            | Inr b \<Rightarrow> Inr ([0x1B, 0x47] @ b @ b)))"

text \<open>The dictionary, entry by entry in the order of the source.\<close>

definition OKIDATA_COMMANDS :: "(string \<times> entry) list" where
  "OKIDATA_COMMANDS =
    [(''Backspace'', Fixed [0x08]),
     (''Carriage Return'', Fixed [0x0D]),
     (''Select 10 cpi'', Fixed [0x1E]),
     (''Select 12 cpi'', Fixed [0x1C]),
     (''Select 15 cpi'', Fixed [0x1B, 0x67]),
     (''Select 17.1 cpi'', Fixed [0x1D]),
     (''Select 20 cpi'', Fixed [0x1B, 0x23, 0x33]),
     (''Standard Character Set'', Fixed [0x1B, 0x21, 0x30]),
     (''Block Graphic Set'', Fixed [0x1B, 0x21, 0x31]),
     (''Publisher Set'', Fixed [0x1B, 0x21, 0x5A]),
     (''Line Graphics Set'', Fixed [0x1B, 0x21, 0x32]),
     (''Select Utility'', Fixed [0x1B, 0x30]),
     (''Slashed Zero'', Fixed [0x1B, 0x21, 0x40]),
     (''Unslashed Zero'', Fixed [0x1B, 0x21, 0x41]),
     (''Double Height On'', Fixed [0x1B, 0x1F, 0x31]),
     (''Double Height Off'', Fixed [0x1B, 0x1F, 0x30]),
     (''Double Width On'', Fixed [0x1F]),
     (''Double Width Off'', Fixed [0x1B, 0x21, 0x30]),
     (''Emphasized Printing On'', Fixed [0x1B, 0x54]),
     (''Emphasized Printing Off'', Fixed [0x1B, 0x49]),
     (''Enhanced Printing On'', Fixed [0x1B, 0x48]),
     (''Enhanced Printing Off'', Fixed [0x1B, 0x49]),
     (''Underline Printing On'', Fixed [0x1B, 0x2D, 0x01]),
     (''Underline Printing Off'', Fixed [0x1B, 0x2D, 0x00]),
     (''Unidirectional Printing On'', Fixed [0x1B, 0x2D, 0x02]),
     (''Unidirectional Printing Off'', Fixed [0x1B, 0x2D, 0x00]),
     (''Form Feed'', Fixed [0x0C]),
     (''Horizontal Tab'', Fixed [0x09]),
     (''Vertical Tab'', Fixed [0x0B]),
     (''Line Feed'', Fixed [0x0A]),
     (''Line Feed w/o CR'', Fixed [0x1B, 0x12]),
     (''Reverse Line Feed'', Fixed [0x1B, 0x0A]),
     (''Set Spacing to 1/6'' @ [CHR 0x22], Fixed [0x1B, 0x36]),
     (''Set Spacing to 1/8'' @ [CHR 0x22], Fixed [0x1B, 0x38]),
     (''Set Spacing to n/144'', Parametric set_spacing_n144),
     (''Print Quality Select HSD/SSD'', Fixed [0x1B, 0x23, 0x30]),
     (''Select NLQ Courier'', Fixed [0x1B, 0x31]),
     (''Select NLQ Gothic'', Fixed [0x1B, 0x33]),
     (''Print Speed Set to Full'', Fixed [0x1B, 0x3E]),
     (''Print Speed Set to Half'', Fixed [0x1B, 0x3C]),
     (''Proportional Printing On'', Fixed [0x1B, 0x59]),
     (''Proportional Printing Off'', Fixed [0x1B, 0x5A]),
     (''Reset (Clear Print Buffer)'', Fixed [0x18]),
     (''Skip Over Perforation'', Parametric skip_over_perforation),
     (''Shift In'', Fixed [0x0F]),
     (''Shift Out'', Fixed [0x0E])]"

text \<open>\<open>d.get(key, default)\<close>\<close>

definition dict_get :: "(string \<times> entry) list \<Rightarrow> string \<Rightarrow> entry \<Rightarrow> entry" where
  "dict_get d k dflt = (case map_of d k of None \<Rightarrow> dflt | Some v \<Rightarrow> v)"

text \<open>
  What Python does with a dictionary value where the code uses it: its truth value in
  \<open>if command:\<close> (a lambda is true, a \<open>bytes\<close> object is true when not empty), its
  use as a byte sequence (iterating or concatenating a lambda is a TypeError) and its
  call with one argument (calling a \<open>bytes\<close> object is a TypeError).
\<close>

fun truthy :: "entry \<Rightarrow> bool" where
  "truthy (Fixed b) = (b \<noteq> [])"
| "truthy (Parametric f) = True"

fun as_bytes :: "entry \<Rightarrow> error + bytes" where
  "as_bytes (Fixed b) = Inr b"
| "as_bytes (Parametric f) = Inl TypeError"

fun call_entry :: "entry \<Rightarrow> int \<Rightarrow> error + bytes" where
  "call_entry (Parametric f) n = f n"
| "call_entry (Fixed b) n = Inl TypeError"

section \<open>The editor's state and its effects\<close>

text \<open>
  The fields of \<open>LiveKeystrokeEditor\<close> that the modelled methods read or write. A Tk
  variable is modelled by the value it holds: a \<open>BooleanVar\<close> by a \<open>bool\<close>, an
  \<open>IntVar\<close> by an \<open>int\<close>, a \<open>StringVar\<close> by a \<open>string\<close> (the radio-button values
  are ASCII). \<open>right_margin_var\<close> is a \<open>DoubleVar\<close> bound to a free-text entry; the code
  guards its read, so the field is the outcome of \<open>get()\<close>: \<open>None\<close> when it raises.
  \<open>port_entry\<close> is the port entry as \<open>int(self.port_entry.get())\<close> reads it: \<open>None\<close>
  when \<open>int\<close> raises ValueError.

  Floats are idealised as reals: finite values with exact arithmetic. Rounding,
  infinities and NaN are outside the model.

  The text widget is split at the insert cursor into the code points before and after
  it. Pending \<open>after\<close> timers are pairs of a due time in milliseconds and a callback.

  Everything the methods do to the outside is appended to \<open>trace\<close>, in the order it
  happens: a line inserted into the debug panel, an error dialog, and an attempt to
  connect and send a buffer together with its outcome (\<open>None\<close> when \<open>sendall\<close>
  returned, the exception's message otherwise). The outcome of the n-th attempt is
  \<open>network n\<close>: the model fixes nothing about the device or the link.
\<close>

type_synonym codepoint = nat

datatype colour = White | Green | Yellow | Red

datatype callback =
    SendLive entry
  | SendLeftMargin
  | SendLine "codepoint list"
  | SendAllDefaults

datatype event =
    DebugInsert string
  | ShowError string string
  | Transmit string int bytes "string option"
  | Traceback error

record editor =
  debug_mode :: bool
  option_italic :: bool
  option_emphasized :: bool
  underline_printing :: bool
  unidirectional :: bool
  enhanced_state :: bool
  double_height :: bool
  double_wide :: bool
  proportional :: bool
  cpi_var :: string
  font_var :: string
  spacing_var :: string
  spacing_n :: int
  quality_var :: string
  speed_var :: string
  skip_perforation :: int
  left_margin_count :: int
  mode_var :: string
  right_margin_var :: "real option"
  zero_mode :: string
  shift_state :: bool
  ip_entry :: string
  port_entry :: "int option"
  text_before :: "codepoint list"
  text_after :: "codepoint list"
  display_length :: real
  display_bg :: colour
  timers :: "(nat \<times> callback) list"
  now :: nat
  trace :: "event list"
  network :: "nat \<Rightarrow> string option"
  attempts :: nat

text \<open>
  A method either returns or raises, and has changed the state up to that point in
  both cases: an action maps a state to the exception raised, if any, and the state
  reached.
\<close>

type_synonym action = "editor \<Rightarrow> error option \<times> editor"

fun run_all :: "action list \<Rightarrow> action" where
  "run_all [] s = (None, s)"
| "run_all (f # fs) s =
     (case f s of
        (Some e, s') \<Rightarrow> (Some e, s')
      | (None, s') \<Rightarrow> run_all fs s')"

subsection \<open>Decimal rendering of a buffer\<close>

text \<open>\<open>str(b)\<close> for a byte, and \<open>" ".join(...)\<close>.\<close>

fun str_nat :: "nat \<Rightarrow> string" where
  "str_nat n =
     (if n < 10 then [''0123456789'' ! n]
      else str_nat (n div 10) @ [''0123456789'' ! (n mod 10)])"

fun join_space :: "string list \<Rightarrow> string" where
  "join_space [] = []"
| "join_space [x] = x"
| "join_space (x # y # ys) = x @ '' '' @ join_space (y # ys)"

definition dec_str :: "bytes \<Rightarrow> string" where
  "dec_str b = join_space (map (\<lambda>w. str_nat (unat w)) b)"

subsection \<open>Sending\<close>

definition debug_insert :: "string \<Rightarrow> editor \<Rightarrow> editor" where
  "debug_insert line s = s\<lparr>trace := trace s @ [DebugInsert line]\<rparr>"

definition showerror :: "string \<Rightarrow> string \<Rightarrow> editor \<Rightarrow> editor" where
  "showerror title msg s = s\<lparr>trace := trace s @ [ShowError title msg]\<rparr>"

text \<open>
  \<open>with socket.create_connection((ip, port), timeout=5) as s: s.sendall(buf)\<close>: one
  attempt, with the outcome the network gives it.
\<close>

definition transmit :: "int \<Rightarrow> bytes \<Rightarrow> editor \<Rightarrow> string option \<times> editor" where
  "transmit port buf s =
     (let outcome = network s (attempts s)
      in (outcome,
          s\<lparr>trace := trace s @ [Transmit (ip_entry s) port buf outcome],
            attempts := attempts s + 1\<rparr>))"

definition send_command_immediately :: "entry \<Rightarrow> string \<Rightarrow> action" where
  "send_command_immediately command_bytes tag s =
     (case as_bytes command_bytes of
        Inl e \<Rightarrow> (Some e, s)
      | Inr buf \<Rightarrow>
          (let s1 = (if debug_mode s
                     then debug_insert (tag @ '' '' @ dec_str buf @ [CHR 0x0A]) s
                     else s)
           in case port_entry s1 of
                None \<Rightarrow> (None, showerror ''Error'' ''Invalid port number.'' s1)
              | Some printer_port \<Rightarrow>
                  (case transmit printer_port buf s1 of
                     (None, s2) \<Rightarrow> (None, s2)
                   | (Some e, s2) \<Rightarrow>
                       (None, debug_insert (tag @ '' Error: '' @ e @ [CHR 0x0A]) s2))))"

definition send_live_command :: "entry \<Rightarrow> action" where
  "send_live_command command_bytes s =
     (case as_bytes command_bytes of
        Inl e \<Rightarrow> (Some e, s)
      | Inr buf \<Rightarrow>
          (let s1 = (if debug_mode s
                     then debug_insert (''[Live Keystroke] '' @ dec_str buf @ [CHR 0x0A]) s
                     else s)
           in case port_entry s1 of
                None \<Rightarrow> (None, showerror ''Error'' ''Invalid port number.'' s1)
              | Some printer_port \<Rightarrow>
                  (case transmit printer_port buf s1 of
                     (None, s2) \<Rightarrow> (None, s2)
                   | (Some e, s2) \<Rightarrow>
                       (None, debug_insert (''[Live Keystroke] Error: '' @ e @ [CHR 0x0A]) s2))))"

definition send_manual_command :: "string \<Rightarrow> action" where
  "send_manual_command cmd_name s =
     (let command = dict_get OKIDATA_COMMANDS cmd_name (Fixed [])
      in if truthy command then send_live_command command s else (None, s))"

text \<open>The buffers handed to the network, in order, and those that arrived.\<close>

fun attempted :: "event list \<Rightarrow> bytes list" where
  "attempted [] = []"
| "attempted (Transmit ip port buf outcome # evs) = buf # attempted evs"
| "attempted (ev # evs) = attempted evs"

fun delivered :: "event list \<Rightarrow> bytes list" where
  "delivered [] = []"
| "delivered (Transmit ip port buf None # evs) = buf # delivered evs"
| "delivered (ev # evs) = delivered evs"

section \<open>Settings and toggles\<close>

definition restore_defaults :: action where
  "restore_defaults s =
     (case port_entry s of
        None \<Rightarrow> (None, showerror ''Error'' ''Invalid port number.'' s)
      | Some printer_port \<Rightarrow>
          (let reset_cmd = dict_get OKIDATA_COMMANDS ''Reset (Clear Print Buffer)'' (Fixed []);
               cpi_cmd = dict_get OKIDATA_COMMANDS (''Select '' @ cpi_var s) (Fixed []);
               skip_val = skip_perforation s
           in case call_entry (dict_get OKIDATA_COMMANDS ''Skip Over Perforation''
                                 (Parametric (\<lambda>n. Inr []))) skip_val of
                Inl e \<Rightarrow> (Some e, s)
              | Inr skip_cmd \<Rightarrow>
                  (case as_bytes reset_cmd of
                     Inl e \<Rightarrow> (Some e, s)
                   | Inr r \<Rightarrow>
                       (case as_bytes cpi_cmd of
                          Inl e \<Rightarrow> (Some e, s)
                        | Inr c \<Rightarrow>
                            (let full_cmd = r @ c @ skip_cmd;
                                 s1 = (if debug_mode s
                                       then debug_insert
                                              (''[Restore Defaults] '' @ dec_str full_cmd @ [CHR 0x0A]) s
                                       else s)
                             in case transmit printer_port full_cmd s1 of
                                  (None, s2) \<Rightarrow> (None, s2)
                                | (Some e, s2) \<Rightarrow>
                                    (None, showerror ''Error''
                                             (''Failed to send default commands: '' @ e) s2))))))"

definition apply_font :: action where
  "apply_font s =
     (let font = font_var s;
          command =
            (if font = ''Block Graphic Set''
             then dict_get OKIDATA_COMMANDS ''Block Graphic Set'' (Fixed [])
             else if font = ''Publisher Set''
             then dict_get OKIDATA_COMMANDS ''Publisher Set'' (Fixed [])
             else if font = ''Line Graphics Set''
             then dict_get OKIDATA_COMMANDS ''Line Graphics Set'' (Fixed [])
             else if font = ''Standard Character Set''
             then dict_get OKIDATA_COMMANDS ''Standard Character Set'' (Fixed [])
             else Fixed [])
      in if truthy command then send_command_immediately command ''[Character Set]'' s
         else (None, s))"

definition apply_cpi :: action where
  "apply_cpi s =
     (if cpi_var s \<noteq> ''Double Wide''
      then (let key = ''Select '' @ cpi_var s;
                command = dict_get OKIDATA_COMMANDS key (Fixed [])
            in if truthy command then send_command_immediately command ''[CPI]'' s
               else (None, s))
      else (None, s))"

definition apply_spacing :: action where
  "apply_spacing s =
     (let spacing = spacing_var s
      in case (if spacing = ''1/6''
               then Inr (dict_get OKIDATA_COMMANDS (''Set Spacing to 1/6'' @ [CHR 0x22]) (Fixed []))
               else if spacing = ''1/8''
               then Inr (dict_get OKIDATA_COMMANDS (''Set Spacing to 1/8'' @ [CHR 0x22]) (Fixed []))
               else if spacing = ''n/144''
               then (case call_entry (dict_get OKIDATA_COMMANDS ''Set Spacing to n/144''
                                        (Parametric (\<lambda>n. Inr []))) (spacing_n s) of
                       Inl e \<Rightarrow> Inl e
                     | Inr b \<Rightarrow> Inr (Fixed b))
               else Inr (Fixed [])) of
           Inl e \<Rightarrow> (Some e, s)
         | Inr command \<Rightarrow>
             if truthy command then send_command_immediately command ''[Spacing]'' s
             else (None, s))"

definition apply_quality :: action where
  "apply_quality s =
     (let quality = quality_var s;
          command =
            (if quality = ''HSD/SSD''
             then dict_get OKIDATA_COMMANDS ''Print Quality Select HSD/SSD'' (Fixed [])
             else if quality = ''NLQ Courier''
             then dict_get OKIDATA_COMMANDS ''Select NLQ Courier'' (Fixed [])
             else if quality = ''NLQ Gothic''
             then dict_get OKIDATA_COMMANDS ''Select NLQ Gothic'' (Fixed [])
             else if quality = ''Utility''
             then dict_get OKIDATA_COMMANDS ''Select Utility'' (Fixed [])
             else Fixed [])
      in if truthy command then send_command_immediately command ''[Quality]'' s
         else (None, s))"

definition apply_speed :: action where
  "apply_speed s =
     (let speed = speed_var s;
          command =
            (if speed = ''Full''
             then dict_get OKIDATA_COMMANDS ''Print Speed Set to Full'' (Fixed [])
             else if speed = ''Half''
             then dict_get OKIDATA_COMMANDS ''Print Speed Set to Half'' (Fixed [])
             else Fixed [])
      in if truthy command then send_command_immediately command ''[Speed]'' s
         else (None, s))"

definition apply_double_height :: action where
  "apply_double_height s =
     (let command =
            (if double_height s
             then dict_get OKIDATA_COMMANDS ''Double Height On'' (Fixed [])
             else dict_get OKIDATA_COMMANDS ''Double Height Off'' (Fixed []))
      in if truthy command then send_command_immediately command ''[Double Height]'' s
         else (None, s))"

definition apply_proportional :: action where
  "apply_proportional s =
     (let command =
            (if proportional s
             then dict_get OKIDATA_COMMANDS ''Proportional Printing On'' (Fixed [])
             else dict_get OKIDATA_COMMANDS ''Proportional Printing Off'' (Fixed []))
      in if truthy command then send_command_immediately command ''[Proportional]'' s
         else (None, s))"

definition apply_skip_over_perforation :: action where
  "apply_skip_over_perforation s =
     (let val = skip_perforation s
      in case call_entry (dict_get OKIDATA_COMMANDS ''Skip Over Perforation''
                            (Parametric (\<lambda>n. Inr []))) val of
           Inl e \<Rightarrow> (Some e, s)
         | Inr command \<Rightarrow>
             send_command_immediately (Fixed command) ''[Skip Over Perforation]'' s)"

definition apply_underline :: action where
  "apply_underline s =
     (let command =
            (if underline_printing s
             then dict_get OKIDATA_COMMANDS ''Underline Printing On'' (Fixed [])
             else dict_get OKIDATA_COMMANDS ''Underline Printing Off'' (Fixed []))
      in if truthy command then send_command_immediately command ''[Underline Printing]'' s
         else (None, s))"

definition apply_unidirectional :: action where
  "apply_unidirectional s =
     (let command =
            (if unidirectional s
             then dict_get OKIDATA_COMMANDS ''Unidirectional Printing On'' (Fixed [])
             else dict_get OKIDATA_COMMANDS ''Unidirectional Printing Off'' (Fixed []))
      in if truthy command
         then send_command_immediately command ''[Unidirectional Printing]'' s
         else (None, s))"

definition send_all_defaults :: action where
  "send_all_defaults =
     run_all [restore_defaults, apply_font, apply_cpi, apply_spacing, apply_quality,
              apply_speed, apply_double_height, apply_proportional,
              apply_skip_over_perforation]"

section \<open>Line length\<close>

text \<open>
  \<open>self.text.get("insert linestart", "insert lineend")\<close>: the line the cursor is on,
  without its newline.
\<close>

definition newline :: codepoint where
  "newline = 10"

definition current_line :: "editor \<Rightarrow> codepoint list" where
  "current_line s =
     rev (takeWhile (\<lambda>c. c \<noteq> newline) (rev (text_before s)))
     @ takeWhile (\<lambda>c. c \<noteq> newline) (text_after s)"

text \<open>
  \<open>s.split()[0]\<close>: the first run of characters that are not white space, IndexError
  (here \<open>None\<close>) when there is none. The white space of \<open>str.split\<close> among the first
  256 code points.
\<close>

definition is_space :: "char \<Rightarrow> bool" where
  "is_space c =
     (of_char c \<in> {9, 10, 11, 12, 13, 28, 29, 30, 31, 32, 133, 160 :: nat})"

definition first_word :: "string \<Rightarrow> string option" where
  "first_word s =
     (let t = dropWhile is_space s
      in if t = [] then None else Some (takeWhile (\<lambda>c. \<not> is_space c) t))"

text \<open>Float division: ZeroDivisionError (here \<open>None\<close>) on a zero divisor.\<close>

definition py_div :: "real \<Rightarrow> real \<Rightarrow> real option" where
  "py_div x y = (if y = 0 then None else Some (x / y))"

text \<open>
  The built-in \<open>float\<close> is a parameter \<open>flt\<close> of the model: \<open>flt w\<close> is the number
  \<open>float(w)\<close> returns, \<open>None\<close> when it raises. The first \<open>try\<close> of
  \<open>update_line_length_display\<close> has a bare \<open>except\<close>, which also catches the
  IndexError of \<open>split()[0]\<close>.
\<close>

definition numeric_cpi_of :: "(string \<Rightarrow> real option) \<Rightarrow> editor \<Rightarrow> real" where
  "numeric_cpi_of flt s =
     (case first_word (cpi_var s) of
        None \<Rightarrow> 10
      | Some w \<Rightarrow> (case flt w of None \<Rightarrow> 10 | Some v \<Rightarrow> v))"

definition effective_cpi_of :: "(string \<Rightarrow> real option) \<Rightarrow> editor \<Rightarrow> real" where
  "effective_cpi_of flt s =
     (if double_wide s then numeric_cpi_of flt s / 2 else numeric_cpi_of flt s)"

definition line_length_of :: "(string \<Rightarrow> real option) \<Rightarrow> editor \<Rightarrow> real" where
  "line_length_of flt s =
     (let char_count = length (current_line s)
      in case py_div (8 * real_of_int (left_margin_count s)) (numeric_cpi_of flt s) of
           None \<Rightarrow> 0
         | Some a \<Rightarrow>
             (case py_div (real char_count) (effective_cpi_of flt s) of
                None \<Rightarrow> 0
              | Some b \<Rightarrow> a + b))"

definition colour_of :: "(string \<Rightarrow> real option) \<Rightarrow> editor \<Rightarrow> colour" where
  "colour_of flt s =
     (let right_margin = (case right_margin_var s of None \<Rightarrow> 7.5 | Some r \<Rightarrow> r);
          gap = right_margin - line_length_of flt s
      in if gap \<ge> 0.5 then Green
         else if 0 \<le> gap \<and> gap < 0.5 then Yellow
         else Red)"

text \<open>
  The label shows \<open>display_length\<close> with two decimals on the background
  \<open>display_bg\<close>.
\<close>

definition update_line_length_display :: "(string \<Rightarrow> real option) \<Rightarrow> editor \<Rightarrow> editor" where
  "update_line_length_display flt s =
     s\<lparr>display_length := line_length_of flt s, display_bg := colour_of flt s\<rparr>"

definition toggle_double_wide :: "(string \<Rightarrow> real option) \<Rightarrow> action" where
  "toggle_double_wide flt s =
     (case (if double_wide s
            then (let command = dict_get OKIDATA_COMMANDS ''Double Width On'' (Fixed [])
                  in if truthy command
                     then send_command_immediately command ''[Double Wide ON]'' s
                     else (None, s))
            else apply_cpi s) of
        (Some e, s') \<Rightarrow> (Some e, s')
      | (None, s') \<Rightarrow> (None, update_line_length_display flt s'))"

section \<open>Committing a line\<close>






subsection \<open>UTF-8\<close>



subsection \<open>The timers\<close>




section \<open>The state after start-up\<close>

text \<open>
  The state \<open>__init__\<close> leaves, on the network \<open>net\<close>: the defaults of the Tk
  variables and entries, an empty text, and the one timer it schedules.
\<close>

definition initial :: "(nat \<Rightarrow> string option) \<Rightarrow> editor" where
  "initial net =
     \<lparr>debug_mode = True,
      option_italic = False,
      option_emphasized = False,
      underline_printing = False,
      unidirectional = False,
      enhanced_state = False,
      double_height = False,
      double_wide = False,
      proportional = False,
      cpi_var = ''10 cpi'',
      font_var = ''Block Graphic Set'',
      spacing_var = ''1/6'',
      spacing_n = 9,
      quality_var = ''HSD/SSD'',
      speed_var = ''Full'',
      skip_perforation = 0,
      left_margin_count = 0,
      mode_var = ''Line-by-Line'',
      right_margin_var = Some 7.5,
      zero_mode = ''Slashed Zero'',
      shift_state = False,
      ip_entry = ''192.168.4.28'',
      port_entry = Some 9100,
      text_before = [],
      text_after = [],
      display_length = 0,
      display_bg = White,
      timers = [(500, SendAllDefaults)],
      now = 0,
      trace = [],
      network = net,
      attempts = 0\<rparr>"

text \<open>
  A stand-in for \<open>float\<close> on the unsigned decimal numerals \<open>digits\<close> and
  \<open>digits.digits\<close>, which is what the CPI radio buttons hold; it is used where a
  concrete state is evaluated.
\<close>

definition is_digit :: "char \<Rightarrow> bool" where
  "is_digit c = (48 \<le> (of_char c :: nat) \<and> (of_char c :: nat) \<le> 57)"

fun digits_val :: "nat \<Rightarrow> string \<Rightarrow> nat" where
  "digits_val acc [] = acc"
| "digits_val acc (c # cs) = digits_val (10 * acc + (of_char c - 48)) cs"

definition dec_float :: "string \<Rightarrow> real option" where
  "dec_float w =
     (let ip = takeWhile is_digit w; rest = dropWhile is_digit w
      in if ip = [] then None
         else if rest = [] then Some (real (digits_val 0 ip))
         else if hd rest = CHR ''.'' \<and> tl rest \<noteq> [] \<and> list_all is_digit (tl rest)
         then Some (real (digits_val 0 ip)
                    + real (digits_val 0 (tl rest)) / 10 ^ length (tl rest))
         else None)"

section \<open>The sequences the claims speak of\<close>

text \<open>
  These definitions follow the words of the claims, not the code; the theorems compare
  them with what the code transmits. \<open>registered name\<close> is the byte sequence the
  registry holds under a name.
\<close>

definition registered :: "string \<Rightarrow> bytes" where
  "registered name =
     (case map_of OKIDATA_COMMANDS name of Some (Fixed b) \<Rightarrow> b | _ \<Rightarrow> [])"

definition cpi_command :: "editor \<Rightarrow> bytes" where
  "cpi_command s = registered (''Select '' @ cpi_var s)"

definition skip_command :: "editor \<Rightarrow> bytes" where
  "skip_command s =
     (if skip_perforation s = 0 then [0x1B, 0x25, 0x53, 0x30]
      else [0x1B, 0x47, word_of_int (skip_perforation s), word_of_int (skip_perforation s)])"

definition font_command :: "editor \<Rightarrow> bytes" where
  "font_command s = registered (font_var s)"

definition spacing_command :: "editor \<Rightarrow> bytes" where
  "spacing_command s =
     (if spacing_var s = ''n/144'' then [0x1B, 0x25, 0x39, word_of_int (spacing_n s)]
      else registered (''Set Spacing to '' @ spacing_var s @ [CHR 0x22]))"

definition quality_command :: "editor \<Rightarrow> bytes" where
  "quality_command s =
     registered (if quality_var s = ''HSD/SSD'' then ''Print Quality Select HSD/SSD''
                 else ''Select '' @ quality_var s)"

definition speed_command :: "editor \<Rightarrow> bytes" where
  "speed_command s = registered (''Print Speed Set to '' @ speed_var s)"

definition double_height_command :: "editor \<Rightarrow> bytes" where
  "double_height_command s =
     registered (''Double Height '' @ (if double_height s then ''On'' else ''Off''))"

definition proportional_command :: "editor \<Rightarrow> bytes" where
  "proportional_command s =
     registered (''Proportional Printing '' @ (if proportional s then ''On'' else ''Off''))"

text \<open>
  The transmissions of restore-defaults as the specification lists them: the buffer of
  reset, CPI and skip-perforation, then font, spacing, quality, speed, double height
  and proportional, each on its own.
\<close>

definition claimed_defaults :: "editor \<Rightarrow> bytes list" where
  "claimed_defaults s =
     [registered ''Reset (Clear Print Buffer)'' @ cpi_command s @ skip_command s,
      font_command s, spacing_command s, quality_command s, speed_command s,
      double_height_command s, proportional_command s]"

text \<open>The same list with the CPI command after the font and the skip command last.\<close>

definition defaults_sequence :: "editor \<Rightarrow> bytes list" where
  "defaults_sequence s =
     [registered ''Reset (Clear Print Buffer)'' @ cpi_command s @ skip_command s,
      font_command s, cpi_command s, spacing_command s, quality_command s,
      speed_command s, double_height_command s, proportional_command s,
      skip_command s]"

text \<open>
  The settings hold values their controls offer: a radio button's value, a skip count
  of the spin box's range, and a spacing numerator that fits a byte where it is used.
\<close>

definition offered :: "editor \<Rightarrow> bool" where
  "offered s =
     (font_var s \<in> {''Block Graphic Set'', ''Publisher Set'', ''Line Graphics Set'',
                     ''Standard Character Set''}
      \<and> cpi_var s \<in> {''10 cpi'', ''12 cpi'', ''15 cpi'', ''17.1 cpi'', ''20 cpi''}
      \<and> spacing_var s \<in> {''1/6'', ''1/8'', ''n/144''}
      \<and> quality_var s \<in> {''HSD/SSD'', ''NLQ Courier'', ''NLQ Gothic'', ''Utility''}
      \<and> speed_var s \<in> {''Full'', ''Half''}
      \<and> 0 \<le> skip_perforation s \<and> skip_perforation s \<le> 9
      \<and> (spacing_var s = ''n/144'' \<longrightarrow> 0 \<le> spacing_n s \<and> spacing_n s < 256))"

text \<open>
  An action that returns normally, changes nothing of the state but the trace and the
  count of attempts, and hands the network exactly the buffers \<open>bufs\<close>.
\<close>

definition only_sends :: "action \<Rightarrow> editor \<Rightarrow> bytes list \<Rightarrow> bool" where
  "only_sends f s bufs =
     (\<exists>t a. f s = (None, s\<lparr>trace := t, attempts := a\<rparr>)
            \<and> attempted t = attempted (trace s) @ bufs)"

text \<open>
  An action that, raising or not, changes nothing of the state but the trace and the
  count of attempts, and attempts no transmission while the port entry is invalid.
\<close>

definition keeps_settings :: "action \<Rightarrow> bool" where
  "keeps_settings f =
     (\<forall>s. snd (f s) = s\<lparr>trace := trace (snd (f s)), attempts := attempts (snd (f s))\<rparr>
          \<and> (port_entry s = None \<longrightarrow> attempted (trace (snd (f s))) = attempted (trace s)))"

section \<open>Auxiliary facts\<close>

lemma registry_fixed:
  "dict_get OKIDATA_COMMANDS ''Carriage Return'' d = Fixed [0x0D]"
  "dict_get OKIDATA_COMMANDS ''Line Feed'' d = Fixed [0x0A]"
  "dict_get OKIDATA_COMMANDS ''Horizontal Tab'' d = Fixed [0x09]"
  "dict_get OKIDATA_COMMANDS ''Reset (Clear Print Buffer)'' d = Fixed [0x18]"
  "dict_get OKIDATA_COMMANDS ''Double Width On'' d = Fixed [0x1F]"
  "dict_get OKIDATA_COMMANDS ''Double Width Off'' d = Fixed [0x1B, 0x21, 0x30]"
  "dict_get OKIDATA_COMMANDS ''Skip Over Perforation'' d = Parametric skip_over_perforation"
  "dict_get OKIDATA_COMMANDS ''Set Spacing to n/144'' d = Parametric set_spacing_n144"
  by (simp_all add: dict_get_def OKIDATA_COMMANDS_def)

lemma registry_off:
  "dict_get OKIDATA_COMMANDS ''Underline Printing Off'' d = Fixed [0x1B, 0x2D, 0x00]"
  "dict_get OKIDATA_COMMANDS ''Unidirectional Printing Off'' d = Fixed [0x1B, 0x2D, 0x00]"
  "dict_get OKIDATA_COMMANDS ''Emphasized Printing Off'' d = Fixed [0x1B, 0x49]"
  "dict_get OKIDATA_COMMANDS ''Enhanced Printing Off'' d = Fixed [0x1B, 0x49]"
  by (simp_all add: dict_get_def OKIDATA_COMMANDS_def)

lemma skip_general:
  assumes "1 \<le> n" "n \<le> 9"
  shows "skip_over_perforation n = Inr [0x1B, 0x47, word_of_int n, word_of_int n]"
  using assms by (simp add: skip_over_perforation_def bytes_of_int_def)

lemma byte_uint: 
  assumes "0 \<le> n" "n < 256"
  shows "uint (word_of_int n :: byte) = n"
  using assms by (simp add: uint_word_of_int take_bit_int_eq_self)

lemma count_parameter_byte:
  assumes "1 \<le> n" "n \<le> 9"
  shows "count_list [0x1B, 0x47, word_of_int n, word_of_int n :: byte] (word_of_int n) = 2"
proof -
  have u: "uint (word_of_int n :: byte) = n" using assms by (simp add: byte_uint)
  have a: "(word_of_int n :: byte) \<noteq> 0x1B"
  proof
    assume "(word_of_int n :: byte) = 0x1B"
    then have "uint (word_of_int n :: byte) = uint (0x1B :: byte)" by simp
    then have "n = 27" using u by simp
    then show False using assms by simp
  qed
  have b: "(word_of_int n :: byte) \<noteq> 0x47"
  proof
    assume "(word_of_int n :: byte) = 0x47"
    then have "uint (word_of_int n :: byte) = uint (0x47 :: byte)" by simp
    then have "n = 71" using u by simp
    then show False using assms by simp
  qed
  show ?thesis using a b by simp
qed

lemma attempted_append: "attempted (xs @ ys) = attempted xs @ attempted ys"
  by (induction xs rule: attempted.induct) simp_all

lemma delivered_append: "delivered (xs @ ys) = delivered xs @ delivered ys"
  by (induction xs rule: delivered.induct) simp_all

lemma send_command_immediately_trace:
  assumes "as_bytes command = Inr buf"
  shows "trace (snd (send_command_immediately command tag s)) =
     trace s
     @ (if debug_mode s then [DebugInsert (tag @ '' '' @ dec_str buf @ [CHR 0x0A])] else [])
     @ (case port_entry s of
          None \<Rightarrow> [ShowError ''Error'' ''Invalid port number.'']
        | Some p \<Rightarrow>
            (case network s (attempts s) of
               None \<Rightarrow> [Transmit (ip_entry s) p buf None]
             | Some e \<Rightarrow> [Transmit (ip_entry s) p buf (Some e),
                          DebugInsert (tag @ '' Error: '' @ e @ [CHR 0x0A])]))"
  using assms
  by (simp add: send_command_immediately_def debug_insert_def showerror_def transmit_def
      Let_def split: option.splits)


lemma select_entries:
  assumes "map_of OKIDATA_COMMANDS (''Select '' @ x) = Some v"
  shows "v \<in> {Fixed [0x1E], Fixed [0x1C], Fixed [0x1B, 0x67], Fixed [0x1D],
               Fixed [0x1B, 0x23, 0x33], Fixed [0x1B, 0x30], Fixed [0x1B, 0x31],
               Fixed [0x1B, 0x33]}"
  using map_of_SomeD [OF assms] by (auto simp add: OKIDATA_COMMANDS_def)

lemma send_command_immediately_result:
  assumes "port_entry s = Some p"
  shows "send_command_immediately (Fixed buf) tag s =
     (None,
      s\<lparr>trace := trace s
                 @ (if debug_mode s
                    then [DebugInsert (tag @ '' '' @ dec_str buf @ [CHR 0x0A])] else [])
                 @ Transmit (ip_entry s) p buf (network s (attempts s))
                 # (case network s (attempts s) of
                      None \<Rightarrow> []
                    | Some e \<Rightarrow> [DebugInsert (tag @ '' Error: '' @ e @ [CHR 0x0A])]),
        attempts := attempts s + 1\<rparr>)"
  using assms
  by (simp add: send_command_immediately_def debug_insert_def transmit_def Let_def
      split: option.splits)

lemma only_sends_immediately:
  assumes "port_entry s = Some p"
  shows "only_sends (send_command_immediately (Fixed buf) tag) s [buf]"
  unfolding only_sends_def send_command_immediately_result [OF assms]
  by (intro exI conjI, rule refl) (simp add: attempted_append split: option.splits)

lemma restore_defaults_result:
  assumes "port_entry s = Some p"
    and "skip_over_perforation (skip_perforation s) = Inr sk"
    and "as_bytes (dict_get OKIDATA_COMMANDS (''Select '' @ cpi_var s) (Fixed [])) = Inr c"
  shows "restore_defaults s =
     (None,
      s\<lparr>trace := trace s
                 @ (if debug_mode s
                    then [DebugInsert (''[Restore Defaults] ''
                            @ dec_str ([0x18] @ c @ sk) @ [CHR 0x0A])]
                    else [])
                 @ Transmit (ip_entry s) p ([0x18] @ c @ sk) (network s (attempts s))
                 # (case network s (attempts s) of
                      None \<Rightarrow> []
                    | Some e \<Rightarrow>
                        [ShowError ''Error'' (''Failed to send default commands: '' @ e)]),
        attempts := attempts s + 1\<rparr>)"
  using assms
  by (simp add: restore_defaults_def registry_fixed debug_insert_def transmit_def Let_def
      showerror_def split: option.splits)

lemma only_sends_restore_defaults:
  assumes "port_entry s = Some p"
    and "skip_over_perforation (skip_perforation s) = Inr sk"
    and "as_bytes (dict_get OKIDATA_COMMANDS (''Select '' @ cpi_var s) (Fixed [])) = Inr c"
  shows "only_sends restore_defaults s [[0x18] @ c @ sk]"
  unfolding only_sends_def restore_defaults_result [OF assms]
  by (intro exI conjI, rule refl) (simp add: attempted_append split: option.splits)

lemma only_sends_cong:
  assumes "f s = g s" and "only_sends g s B"
  shows "only_sends f s B"
  using assms by (simp add: only_sends_def)

lemma only_sends_run_all_Nil: "only_sends (run_all []) s []"
  unfolding only_sends_def
  by (rule exI [where x = "trace s"], rule exI [where x = "attempts s"]) simp

lemma only_sends_run_all_Cons:
  assumes "only_sends f s A"
    and "\<And>t a. only_sends (run_all fs) (s\<lparr>trace := t, attempts := a\<rparr>) B"
  shows "only_sends (run_all (f # fs)) s (A @ B)"
proof -
  from assms(1) obtain t a where f: "f s = (None, s\<lparr>trace := t, attempts := a\<rparr>)"
    and at: "attempted t = attempted (trace s) @ A"
    unfolding only_sends_def by blast
  have "only_sends (run_all fs) (s\<lparr>trace := t, attempts := a\<rparr>) B"
    by (rule assms(2))
  then obtain t' a'
    where r: "run_all fs (s\<lparr>trace := t, attempts := a\<rparr>)
                = (None, s\<lparr>trace := t, attempts := a\<rparr>\<lparr>trace := t', attempts := a'\<rparr>)"
    and at': "attempted t' = attempted (trace (s\<lparr>trace := t, attempts := a\<rparr>)) @ B"
    unfolding only_sends_def by blast
  have "run_all (f # fs) s = (None, s\<lparr>trace := t', attempts := a'\<rparr>)"
    using f r by simp
  moreover have "attempted t' = attempted (trace s) @ A @ B"
    using at at' by simp
  ultimately show ?thesis unfolding only_sends_def by blast
qed

lemma registry_settings:
  "dict_get OKIDATA_COMMANDS ''Block Graphic Set'' d = Fixed [0x1B, 0x21, 0x31]"
  "dict_get OKIDATA_COMMANDS ''Publisher Set'' d = Fixed [0x1B, 0x21, 0x5A]"
  "dict_get OKIDATA_COMMANDS ''Line Graphics Set'' d = Fixed [0x1B, 0x21, 0x32]"
  "dict_get OKIDATA_COMMANDS ''Standard Character Set'' d = Fixed [0x1B, 0x21, 0x30]"
  "dict_get OKIDATA_COMMANDS ''Select 10 cpi'' d = Fixed [0x1E]"
  "dict_get OKIDATA_COMMANDS ''Select 12 cpi'' d = Fixed [0x1C]"
  "dict_get OKIDATA_COMMANDS ''Select 15 cpi'' d = Fixed [0x1B, 0x67]"
  "dict_get OKIDATA_COMMANDS ''Select 17.1 cpi'' d = Fixed [0x1D]"
  "dict_get OKIDATA_COMMANDS ''Select 20 cpi'' d = Fixed [0x1B, 0x23, 0x33]"
  "dict_get OKIDATA_COMMANDS ''Print Quality Select HSD/SSD'' d = Fixed [0x1B, 0x23, 0x30]"
  "dict_get OKIDATA_COMMANDS ''Select NLQ Courier'' d = Fixed [0x1B, 0x31]"
  "dict_get OKIDATA_COMMANDS ''Select NLQ Gothic'' d = Fixed [0x1B, 0x33]"
  "dict_get OKIDATA_COMMANDS ''Select Utility'' d = Fixed [0x1B, 0x30]"
  "dict_get OKIDATA_COMMANDS ''Print Speed Set to Full'' d = Fixed [0x1B, 0x3E]"
  "dict_get OKIDATA_COMMANDS ''Print Speed Set to Half'' d = Fixed [0x1B, 0x3C]"
  "dict_get OKIDATA_COMMANDS ''Double Height On'' d = Fixed [0x1B, 0x1F, 0x31]"
  "dict_get OKIDATA_COMMANDS ''Double Height Off'' d = Fixed [0x1B, 0x1F, 0x30]"
  "dict_get OKIDATA_COMMANDS ''Proportional Printing On'' d = Fixed [0x1B, 0x59]"
  "dict_get OKIDATA_COMMANDS ''Proportional Printing Off'' d = Fixed [0x1B, 0x5A]"
  by (simp_all add: dict_get_def OKIDATA_COMMANDS_def)

lemma registered_settings:
  "registered ''Reset (Clear Print Buffer)'' = [0x18]"
  "registered ''Block Graphic Set'' = [0x1B, 0x21, 0x31]"
  "registered ''Publisher Set'' = [0x1B, 0x21, 0x5A]"
  "registered ''Line Graphics Set'' = [0x1B, 0x21, 0x32]"
  "registered ''Standard Character Set'' = [0x1B, 0x21, 0x30]"
  "registered ''Select 10 cpi'' = [0x1E]"
  "registered ''Select 12 cpi'' = [0x1C]"
  "registered ''Select 15 cpi'' = [0x1B, 0x67]"
  "registered ''Select 17.1 cpi'' = [0x1D]"
  "registered ''Select 20 cpi'' = [0x1B, 0x23, 0x33]"
  "registered ''Print Quality Select HSD/SSD'' = [0x1B, 0x23, 0x30]"
  "registered ''Select NLQ Courier'' = [0x1B, 0x31]"
  "registered ''Select NLQ Gothic'' = [0x1B, 0x33]"
  "registered ''Select Utility'' = [0x1B, 0x30]"
  "registered ''Print Speed Set to Full'' = [0x1B, 0x3E]"
  "registered ''Print Speed Set to Half'' = [0x1B, 0x3C]"
  "registered ''Double Height On'' = [0x1B, 0x1F, 0x31]"
  "registered ''Double Height Off'' = [0x1B, 0x1F, 0x30]"
  "registered ''Proportional Printing On'' = [0x1B, 0x59]"
  "registered ''Proportional Printing Off'' = [0x1B, 0x5A]"
  "registered ''Double Width On'' = [0x1F]"
  "registered ''Double Width Off'' = [0x1B, 0x21, 0x30]"
  by (simp_all add: registered_def OKIDATA_COMMANDS_def)

lemma registry_spacing_keys:
  "dict_get OKIDATA_COMMANDS (''Set Spacing to 1/6'' @ [CHR 0x22]) d = Fixed [0x1B, 0x36]"
  "dict_get OKIDATA_COMMANDS (''Set Spacing to 1/8'' @ [CHR 0x22]) d = Fixed [0x1B, 0x38]"
  "registered (''Set Spacing to 1/6'' @ [CHR 0x22]) = [0x1B, 0x36]"
  "registered (''Set Spacing to 1/8'' @ [CHR 0x22]) = [0x1B, 0x38]"
  by (simp_all add: dict_get_def registered_def OKIDATA_COMMANDS_def)

lemmas registry_spacing = registry_spacing_keys [simplified]

lemma only_sends_apply_font:
  assumes "port_entry s = Some p"
    and "font_var s \<in> {''Block Graphic Set'', ''Publisher Set'', ''Line Graphics Set'',
                     ''Standard Character Set''}"
  shows "only_sends apply_font s [font_command s]"
proof -
  have "apply_font s
          = send_command_immediately (Fixed (font_command s)) ''[Character Set]'' s"
    using assms(2)
    by (auto simp add: apply_font_def font_command_def registry_settings
        registered_settings)
  then show ?thesis
    by (rule only_sends_cong) (rule only_sends_immediately [OF assms(1)])
qed

lemma only_sends_apply_cpi:
  assumes "port_entry s = Some p"
    and "cpi_var s \<in> {''10 cpi'', ''12 cpi'', ''15 cpi'', ''17.1 cpi'', ''20 cpi''}"
  shows "only_sends apply_cpi s [cpi_command s]"
proof -
  have "apply_cpi s = send_command_immediately (Fixed (cpi_command s)) ''[CPI]'' s"
    using assms(2)
    by (auto simp add: apply_cpi_def cpi_command_def registry_settings
        registered_settings)
  then show ?thesis
    by (rule only_sends_cong) (rule only_sends_immediately [OF assms(1)])
qed

lemma only_sends_apply_spacing:
  assumes "port_entry s = Some p"
    and "spacing_var s \<in> {''1/6'', ''1/8'', ''n/144''}"
    and "spacing_var s = ''n/144'' \<longrightarrow> 0 \<le> spacing_n s \<and> spacing_n s < 256"
  shows "only_sends apply_spacing s [spacing_command s]"
proof -
  have "apply_spacing s
          = send_command_immediately (Fixed (spacing_command s)) ''[Spacing]'' s"
    using assms(2,3)
    by (auto simp add: apply_spacing_def spacing_command_def registry_settings
        registered_settings registry_spacing registry_fixed set_spacing_n144_def
        bytes_of_int_def)
  then show ?thesis
    by (rule only_sends_cong) (rule only_sends_immediately [OF assms(1)])
qed

lemma only_sends_apply_quality:
  assumes "port_entry s = Some p"
    and "quality_var s \<in> {''HSD/SSD'', ''NLQ Courier'', ''NLQ Gothic'', ''Utility''}"
  shows "only_sends apply_quality s [quality_command s]"
proof -
  have "apply_quality s
          = send_command_immediately (Fixed (quality_command s)) ''[Quality]'' s"
    using assms(2)
    by (auto simp add: apply_quality_def quality_command_def registry_settings
        registered_settings)
  then show ?thesis
    by (rule only_sends_cong) (rule only_sends_immediately [OF assms(1)])
qed

lemma only_sends_apply_speed:
  assumes "port_entry s = Some p"
    and "speed_var s \<in> {''Full'', ''Half''}"
  shows "only_sends apply_speed s [speed_command s]"
proof -
  have "apply_speed s = send_command_immediately (Fixed (speed_command s)) ''[Speed]'' s"
    using assms(2)
    by (auto simp add: apply_speed_def speed_command_def registry_settings
        registered_settings)
  then show ?thesis
    by (rule only_sends_cong) (rule only_sends_immediately [OF assms(1)])
qed

lemma only_sends_apply_double_height:
  assumes "port_entry s = Some p"
  shows "only_sends apply_double_height s [double_height_command s]"
proof -
  have "apply_double_height s
          = send_command_immediately (Fixed (double_height_command s)) ''[Double Height]'' s"
    by (simp add: apply_double_height_def double_height_command_def registry_settings
        registered_settings)
  then show ?thesis
    by (rule only_sends_cong) (rule only_sends_immediately [OF assms(1)])
qed

lemma only_sends_apply_proportional:
  assumes "port_entry s = Some p"
  shows "only_sends apply_proportional s [proportional_command s]"
proof -
  have "apply_proportional s
          = send_command_immediately (Fixed (proportional_command s)) ''[Proportional]'' s"
    by (simp add: apply_proportional_def proportional_command_def registry_settings
        registered_settings)
  then show ?thesis
    by (rule only_sends_cong) (rule only_sends_immediately [OF assms(1)])
qed

lemma skip_in_range:
  assumes "0 \<le> skip_perforation s" and "skip_perforation s \<le> 9"
  shows "skip_over_perforation (skip_perforation s) = Inr (skip_command s)"
  using assms
  by (simp add: skip_over_perforation_def skip_command_def bytes_of_int_def)

lemma only_sends_apply_skip:
  assumes "port_entry s = Some p"
    and "0 \<le> skip_perforation s" and "skip_perforation s \<le> 9"
  shows "only_sends apply_skip_over_perforation s [skip_command s]"
proof -
  have "apply_skip_over_perforation s
          = send_command_immediately (Fixed (skip_command s)) ''[Skip Over Perforation]'' s"
    using skip_in_range [OF assms(2,3)]
    by (simp add: apply_skip_over_perforation_def registry_fixed)
  then show ?thesis
    by (rule only_sends_cong) (rule only_sends_immediately [OF assms(1)])
qed

lemma only_sends_restore:
  assumes "port_entry s = Some p"
    and "cpi_var s \<in> {''10 cpi'', ''12 cpi'', ''15 cpi'', ''17.1 cpi'', ''20 cpi''}"
    and "0 \<le> skip_perforation s" and "skip_perforation s \<le> 9"
  shows "only_sends restore_defaults s
           [registered ''Reset (Clear Print Buffer)'' @ cpi_command s @ skip_command s]"
proof -
  have "as_bytes (dict_get OKIDATA_COMMANDS (''Select '' @ cpi_var s) (Fixed []))
          = Inr (cpi_command s)"
    using assms(2)
    by (auto simp add: cpi_command_def registry_settings registered_settings)
  from only_sends_restore_defaults [OF assms(1) skip_in_range [OF assms(3,4)] this]
  show ?thesis by (simp add: registered_settings)
qed


lemma keeps_settings_immediately: "keeps_settings (send_command_immediately c tag)"
  unfolding keeps_settings_def
  by (cases "as_bytes c")
     (simp_all add: send_command_immediately_def debug_insert_def showerror_def
        transmit_def Let_def attempted_append split: option.splits)

lemma keeps_settings_restore_defaults: "keeps_settings restore_defaults"
  unfolding keeps_settings_def
  by (simp add: restore_defaults_def debug_insert_def showerror_def
        transmit_def Let_def attempted_append split: option.splits sum.splits)

lemma keeps_settings_cases:
  assumes "\<And>s. (\<exists>r. f s = (r, s)) \<or> (\<exists>c tag. f s = send_command_immediately c tag s)"
  shows "keeps_settings f"
  unfolding keeps_settings_def
proof (intro allI)
  fix s
  from assms [of s]
  show "snd (f s) = s\<lparr>trace := trace (snd (f s)), attempts := attempts (snd (f s))\<rparr>
          \<and> (port_entry s = None \<longrightarrow> attempted (trace (snd (f s))) = attempted (trace s))"
  proof
    assume "\<exists>r. f s = (r, s)"
    then show ?thesis by auto
  next
    assume "\<exists>c tag. f s = send_command_immediately c tag s"
    then obtain c tag where "f s = send_command_immediately c tag s" by blast
    then show ?thesis
      using keeps_settings_immediately [of c tag] by (simp add: keeps_settings_def)
  qed
qed

lemma keeps_settings_apply:
  "keeps_settings apply_font"
  "keeps_settings apply_cpi"
  "keeps_settings apply_quality"
  "keeps_settings apply_speed"
  "keeps_settings apply_double_height"
  "keeps_settings apply_proportional"
  by (rule keeps_settings_cases,
      simp add: apply_font_def apply_cpi_def apply_quality_def apply_speed_def
        apply_double_height_def apply_proportional_def Let_def, blast)+

lemma keeps_settings_apply_spacing: "keeps_settings apply_spacing"
  by (rule keeps_settings_cases)
     (auto simp add: apply_spacing_def Let_def split: sum.splits)

lemma keeps_settings_apply_skip: "keeps_settings apply_skip_over_perforation"
  by (rule keeps_settings_cases)
     (auto simp add: apply_skip_over_perforation_def Let_def split: sum.splits)

lemma keeps_settings_run_all:
  assumes "\<forall>f \<in> set fs. keeps_settings f"
  shows "keeps_settings (run_all fs)"
  using assms
proof (induction fs)
  case Nil
  show ?case by (simp add: keeps_settings_def)
next
  case (Cons f fs)
  then have kf: "keeps_settings f" and kr: "keeps_settings (run_all fs)" by simp_all
  show ?case
    unfolding keeps_settings_def
  proof (intro allI)
    fix s
    obtain r s1 where fs1: "f s = (r, s1)" by (cases "f s")
    from kf fs1 have s1: "s1 = s\<lparr>trace := trace s1, attempts := attempts s1\<rparr>"
      and a1: "port_entry s = None \<longrightarrow> attempted (trace s1) = attempted (trace s)"
      by (auto simp add: keeps_settings_def dest: spec [of _ s])
    show "snd (run_all (f # fs) s)
            = s\<lparr>trace := trace (snd (run_all (f # fs) s)),
                 attempts := attempts (snd (run_all (f # fs) s))\<rparr>
          \<and> (port_entry s = None \<longrightarrow>
               attempted (trace (snd (run_all (f # fs) s))) = attempted (trace s))"
    proof (cases r)
      case (Some e)
      then show ?thesis using fs1 s1 a1 by simp
    next
      case None
      let ?s2 = "snd (run_all fs s1)"
      from kr have s2: "?s2 = s1\<lparr>trace := trace ?s2, attempts := attempts ?s2\<rparr>"
        and a2: "port_entry s1 = None \<longrightarrow> attempted (trace ?s2) = attempted (trace s1)"
        by (auto simp add: keeps_settings_def dest: spec [of _ s1])
      have p: "port_entry s1 = port_entry s"
        by (subst s1) simp
      have "?s2 = s\<lparr>trace := trace ?s2, attempts := attempts ?s2\<rparr>"
        by (subst s2, subst s1) simp
      then show ?thesis using None fs1 a1 a2 p by simp
    qed
  qed
qed

lemma keeps_settings_send_all_defaults: "keeps_settings send_all_defaults"
  unfolding send_all_defaults_def
  by (rule keeps_settings_run_all)
     (simp add: keeps_settings_restore_defaults keeps_settings_apply
        keeps_settings_apply_spacing keeps_settings_apply_skip)


lemma offered_frame [simp]:
  "offered (s\<lparr>trace := t, attempts := a\<rparr>) = offered s"
  by (simp add: offered_def)

lemma commands_frame [simp]:
  "cpi_command (s\<lparr>trace := t, attempts := a\<rparr>) = cpi_command s"
  "skip_command (s\<lparr>trace := t, attempts := a\<rparr>) = skip_command s"
  "font_command (s\<lparr>trace := t, attempts := a\<rparr>) = font_command s"
  "spacing_command (s\<lparr>trace := t, attempts := a\<rparr>) = spacing_command s"
  "quality_command (s\<lparr>trace := t, attempts := a\<rparr>) = quality_command s"
  "speed_command (s\<lparr>trace := t, attempts := a\<rparr>) = speed_command s"
  "double_height_command (s\<lparr>trace := t, attempts := a\<rparr>) = double_height_command s"
  "proportional_command (s\<lparr>trace := t, attempts := a\<rparr>) = proportional_command s"
  by (simp_all add: cpi_command_def skip_command_def font_command_def spacing_command_def
      quality_command_def speed_command_def double_height_command_def
      proportional_command_def)

lemma only_sends_step:
  assumes "\<And>t a. only_sends f (s\<lparr>trace := t, attempts := a\<rparr>) A"
    and "\<And>t a. only_sends (run_all fs) (s\<lparr>trace := t, attempts := a\<rparr>) B"
  shows "only_sends (run_all (f # fs)) (s\<lparr>trace := t, attempts := a\<rparr>) (A @ B)"
proof (rule only_sends_run_all_Cons)
  show "only_sends f (s\<lparr>trace := t, attempts := a\<rparr>) A" by (rule assms(1))
next
  fix t' a'
  have "only_sends (run_all fs) (s\<lparr>trace := t', attempts := a'\<rparr>) B" by (rule assms(2))
  then show "only_sends (run_all fs)
               (s\<lparr>trace := t, attempts := a\<rparr>\<lparr>trace := t', attempts := a'\<rparr>) B"
    by simp
qed

lemma only_sends_send_all_defaults:
  assumes o: "offered s" and p: "port_entry s = Some p"
  shows "only_sends send_all_defaults s (defaults_sequence s)"
proof -
  have font: "only_sends apply_font (s\<lparr>trace := t, attempts := a\<rparr>) [font_command s]"
    for t a
    using o p only_sends_apply_font [of "s\<lparr>trace := t, attempts := a\<rparr>" p]
    by (simp add: offered_def)
  have cpi: "only_sends apply_cpi (s\<lparr>trace := t, attempts := a\<rparr>) [cpi_command s]"
    for t a
    using o p only_sends_apply_cpi [of "s\<lparr>trace := t, attempts := a\<rparr>" p]
    by (simp add: offered_def)
  have spacing:
    "only_sends apply_spacing (s\<lparr>trace := t, attempts := a\<rparr>) [spacing_command s]"
    for t a
    using o p only_sends_apply_spacing [of "s\<lparr>trace := t, attempts := a\<rparr>" p]
    by (simp add: offered_def)
  have quality:
    "only_sends apply_quality (s\<lparr>trace := t, attempts := a\<rparr>) [quality_command s]"
    for t a
    using o p only_sends_apply_quality [of "s\<lparr>trace := t, attempts := a\<rparr>" p]
    by (simp add: offered_def)
  have speed: "only_sends apply_speed (s\<lparr>trace := t, attempts := a\<rparr>) [speed_command s]"
    for t a
    using o p only_sends_apply_speed [of "s\<lparr>trace := t, attempts := a\<rparr>" p]
    by (simp add: offered_def)
  have dheight:
    "only_sends apply_double_height (s\<lparr>trace := t, attempts := a\<rparr>)
       [double_height_command s]"
    for t a
    using p only_sends_apply_double_height [of "s\<lparr>trace := t, attempts := a\<rparr>" p]
    by simp
  have proportional:
    "only_sends apply_proportional (s\<lparr>trace := t, attempts := a\<rparr>)
       [proportional_command s]"
    for t a
    using p only_sends_apply_proportional [of "s\<lparr>trace := t, attempts := a\<rparr>" p]
    by simp
  have skip:
    "only_sends apply_skip_over_perforation (s\<lparr>trace := t, attempts := a\<rparr>)
       [skip_command s]"
    for t a
    using o p only_sends_apply_skip [of "s\<lparr>trace := t, attempts := a\<rparr>" p]
    by (simp add: offered_def)
  have rest:
    "only_sends (run_all [apply_font, apply_cpi, apply_spacing, apply_quality, apply_speed,
                          apply_double_height, apply_proportional,
                          apply_skip_over_perforation])
       (s\<lparr>trace := t, attempts := a\<rparr>)
       ([font_command s] @ [cpi_command s] @ [spacing_command s] @ [quality_command s]
        @ [speed_command s] @ [double_height_command s] @ [proportional_command s]
        @ [skip_command s] @ [])"
    for t a
    by (intro only_sends_step font cpi spacing quality speed dheight proportional skip
        only_sends_run_all_Nil)
  have first: "only_sends restore_defaults s
              [registered ''Reset (Clear Print Buffer)'' @ cpi_command s @ skip_command s]"
    using o by (intro only_sends_restore [OF p]) (simp_all add: offered_def)
  from only_sends_run_all_Cons [OF first rest]
  show ?thesis
    by (simp add: send_all_defaults_def defaults_sequence_def)
qed

lemma initial_offered: "offered (initial net)"
  by (simp add: offered_def initial_def)

lemma initial_defaults_sequence:
  "defaults_sequence (initial net) =
     [[0x18, 0x1E, 0x1B, 0x25, 0x53, 0x30], [0x1B, 0x21, 0x31], [0x1E], [0x1B, 0x36],
      [0x1B, 0x23, 0x30], [0x1B, 0x3E], [0x1B, 0x1F, 0x30], [0x1B, 0x5A],
      [0x1B, 0x25, 0x53, 0x30]]"
  by (simp add: defaults_sequence_def initial_def cpi_command_def skip_command_def
      font_command_def spacing_command_def quality_command_def speed_command_def
      double_height_command_def proportional_command_def registered_settings
      registry_spacing)

lemma trace_update_line_length_display [simp]:
  "trace (update_line_length_display flt s) = trace s"
  by (simp add: update_line_length_display_def)

lemma no_select_double_wide:
  "map_of OKIDATA_COMMANDS (''Select '' @ ''Double Wide'') = None"
  by (simp add: OKIDATA_COMMANDS_def)


lemma line_length_nonzero:
  assumes "numeric_cpi_of flt s = c" and "c \<noteq> 0"
  shows "line_length_of flt s =
           8 * real_of_int (left_margin_count s) / c
           + real (length (current_line s)) / (if double_wide s then c / 2 else c)"
  using assms by (simp add: line_length_of_def effective_cpi_of_def py_div_def)

lemma line_length_zero:
  assumes "numeric_cpi_of flt s = 0"
  shows "line_length_of flt s = 0"
  using assms by (simp add: line_length_of_def py_div_def)

lemma first_word_cpi: 
  "first_word ''10 cpi'' = Some ''10''" "first_word ''0 cpi'' = Some ''0''"
  "first_word ''abc cpi'' = Some ''abc''"
  by (simp_all add: first_word_def is_space_def)

lemma dec_float_values: 
  "dec_float ''10'' = Some 10" "dec_float ''0'' = Some 0" "dec_float ''abc'' = None"
  by (simp_all add: dec_float_def is_digit_def)







lemma sorted_three_timers:
  "sort_key fst [(n + 10, a), (n + 20, b), (n + 30, c :: callback)]
     = [(n + 10 :: nat, a), (n + 20, b), (n + 30, c)]"
  by simp


section \<open>The claims\<close>



text \<open>
  C2, as stated, fails: after the buffer of reset, CPI and skip-perforation,
  \<open>send_all_defaults\<close> sends the CPI command again, between font and spacing, and the
  skip-perforation command again, last. On the state after start-up it makes nine
  transmissions, not the seven of the claim.
\<close>

theorem defaults_repeat_cpi_and_skip:
  "attempted (trace (snd (send_all_defaults (initial (\<lambda>n. None))))) =
     [[0x18, 0x1E, 0x1B, 0x25, 0x53, 0x30], [0x1B, 0x21, 0x31], [0x1E], [0x1B, 0x36],
      [0x1B, 0x23, 0x30], [0x1B, 0x3E], [0x1B, 0x1F, 0x30], [0x1B, 0x5A],
      [0x1B, 0x25, 0x53, 0x30]]
   \<and> claimed_defaults (initial (\<lambda>n. None)) =
     [[0x18, 0x1E, 0x1B, 0x25, 0x53, 0x30], [0x1B, 0x21, 0x31], [0x1B, 0x36],
      [0x1B, 0x23, 0x30], [0x1B, 0x3E], [0x1B, 0x1F, 0x30], [0x1B, 0x5A]]
   \<and> attempted (trace (snd (send_all_defaults (initial (\<lambda>n. None)))))
       \<noteq> claimed_defaults (initial (\<lambda>n. None))"
proof -
  have p: "port_entry (initial (\<lambda>n. None)) = Some 9100"
    and t: "trace (initial (\<lambda>n. None)) = []"
    by (simp_all add: initial_def)
  have c: "claimed_defaults (initial (\<lambda>n. None)) =
     [[0x18, 0x1E, 0x1B, 0x25, 0x53, 0x30], [0x1B, 0x21, 0x31], [0x1B, 0x36],
      [0x1B, 0x23, 0x30], [0x1B, 0x3E], [0x1B, 0x1F, 0x30], [0x1B, 0x5A]]"
    by (simp add: claimed_defaults_def initial_def cpi_command_def skip_command_def
      font_command_def spacing_command_def quality_command_def speed_command_def
      double_height_command_def proportional_command_def registered_settings
      registry_spacing)
  show ?thesis
    using only_sends_send_all_defaults [OF initial_offered p]
      initial_defaults_sequence [of "\<lambda>n. None"] t c
    by (auto simp add: only_sends_def)
qed


text \<open>
  C2, amended. \<open>send_all_defaults\<close> changes no stored toggle or setting, whatever the
  state: the state it leaves differs from the one it found in the trace and the count
  of attempts only. When the settings hold values their controls offer and the port
  entry is a number, it returns normally and its transmissions are, in this order: the
  one buffer of reset, CPI and skip-perforation, then font, CPI, spacing, quality,
  speed, double height, proportional and skip-perforation, each on its own, from the
  stored settings. When the port entry is not a number it transmits nothing.
\<close>

theorem send_all_defaults_sequence:
  "snd (send_all_defaults s)
     = s\<lparr>trace := trace (snd (send_all_defaults s)),
          attempts := attempts (snd (send_all_defaults s))\<rparr>
   \<and> (offered s \<and> port_entry s = Some p \<longrightarrow>
        fst (send_all_defaults s) = None
        \<and> attempted (trace (snd (send_all_defaults s)))
            = attempted (trace s) @ defaults_sequence s)
   \<and> (port_entry s = None \<longrightarrow>
        attempted (trace (snd (send_all_defaults s))) = attempted (trace s))"
proof -
  have k: "snd (send_all_defaults s)
     = s\<lparr>trace := trace (snd (send_all_defaults s)),
          attempts := attempts (snd (send_all_defaults s))\<rparr>
     \<and> (port_entry s = None \<longrightarrow>
        attempted (trace (snd (send_all_defaults s))) = attempted (trace s))"
    using keeps_settings_send_all_defaults by (simp add: keeps_settings_def)
  have a: "fst (send_all_defaults s) = None
        \<and> attempted (trace (snd (send_all_defaults s)))
            = attempted (trace s) @ defaults_sequence s"
    if "offered s" "port_entry s = Some p"
    using only_sends_send_all_defaults [OF that] by (auto simp add: only_sends_def)
  from k a show ?thesis by blast
qed

theorem send_all_defaults_sequence_witness:
  "fst (send_all_defaults (initial (\<lambda>n. None))) = None
   \<and> attempted (trace (snd (send_all_defaults (initial (\<lambda>n. None))))) =
     [[0x18, 0x1E, 0x1B, 0x25, 0x53, 0x30], [0x1B, 0x21, 0x31], [0x1E], [0x1B, 0x36],
      [0x1B, 0x23, 0x30], [0x1B, 0x3E], [0x1B, 0x1F, 0x30], [0x1B, 0x5A],
      [0x1B, 0x25, 0x53, 0x30]]
   \<and> attempted (trace (snd (send_all_defaults
                               ((initial (\<lambda>n. None))\<lparr>port_entry := None\<rparr>)))) = []"
proof -
  have p: "port_entry (initial (\<lambda>n. None)) = Some 9100"
    and t: "trace (initial (\<lambda>n. None)) = []"
    and n: "port_entry ((initial (\<lambda>n. None))\<lparr>port_entry := None\<rparr>) = None"
    and tn: "trace ((initial (\<lambda>n. None))\<lparr>port_entry := None\<rparr>) = []"
    by (simp_all add: initial_def)
  show ?thesis
    using send_all_defaults_sequence [of "initial (\<lambda>n. None)" 9100]
      send_all_defaults_sequence [of "(initial (\<lambda>n. None))\<lparr>port_entry := None\<rparr>" 0]
      initial_offered [of "\<lambda>n. None"] initial_defaults_sequence [of "\<lambda>n. None"] p t n tn
    by simp
qed



text \<open>
  C4, as stated, fails at a numeric CPI of 0: the code does not put 10 in its place.
  With the CPI text \<open>0 cpi\<close> and a line of 40 characters the division raises
  ZeroDivisionError, the handler sets the length to 0, and the length with 10
  substituted would be 4.
\<close>

theorem zero_cpi_gives_zero_length:
  "numeric_cpi_of dec_float
     ((initial (\<lambda>n. None))\<lparr>cpi_var := ''0 cpi'', text_before := replicate 40 65\<rparr>) = 0
   \<and> line_length_of dec_float
     ((initial (\<lambda>n. None))\<lparr>cpi_var := ''0 cpi'', text_before := replicate 40 65\<rparr>) = 0
   \<and> line_length_of dec_float
     ((initial (\<lambda>n. None))\<lparr>cpi_var := ''0 cpi'', text_before := replicate 40 65\<rparr>)
     \<noteq> 8 * real_of_int (left_margin_count
            ((initial (\<lambda>n. None))\<lparr>cpi_var := ''0 cpi'', text_before := replicate 40 65\<rparr>)) / 10
       + real (length (current_line
            ((initial (\<lambda>n. None))\<lparr>cpi_var := ''0 cpi'', text_before := replicate 40 65\<rparr>))) / 10"
proof -
  have n: "numeric_cpi_of dec_float
     ((initial (\<lambda>n. None))\<lparr>cpi_var := ''0 cpi'', text_before := replicate 40 65\<rparr>) = 0"
    by (simp add: numeric_cpi_of_def initial_def first_word_cpi dec_float_values)
  have l: "length (current_line
            ((initial (\<lambda>n. None))\<lparr>cpi_var := ''0 cpi'', text_before := replicate 40 65\<rparr>)) = 40"
    by (simp add: current_line_def initial_def newline_def)
  show ?thesis using n l line_length_zero [OF n]
    by (simp add: initial_def)
qed

text \<open>
  C4, amended. When the CPI text does not parse (it has no first word, or \<open>float\<close>
  raises on it), 10 is taken for the numeric CPI and the length is computed from it;
  when it parses to 0, the length is 0. Neither case raises: both are branches of
  \<open>line_length_of\<close>, which returns a number on every state.
\<close>

theorem cpi_guard:
  "((first_word (cpi_var s) = None
      \<or> (\<exists>w. first_word (cpi_var s) = Some w \<and> flt w = None)) \<longrightarrow>
       numeric_cpi_of flt s = 10
       \<and> line_length_of flt s =
           8 * real_of_int (left_margin_count s) / 10
           + real (length (current_line s)) / (if double_wide s then 10 / 2 else 10))
   \<and> ((\<exists>w. first_word (cpi_var s) = Some w \<and> flt w = Some 0) \<longrightarrow>
       numeric_cpi_of flt s = 0 \<and> line_length_of flt s = 0)"
proof -
  have a: "numeric_cpi_of flt s = 10"
    if "first_word (cpi_var s) = None
      \<or> (\<exists>w. first_word (cpi_var s) = Some w \<and> flt w = None)"
    using that by (auto simp add: numeric_cpi_of_def)
  have b: "numeric_cpi_of flt s = 0"
    if "\<exists>w. first_word (cpi_var s) = Some w \<and> flt w = Some 0"
    using that by (auto simp add: numeric_cpi_of_def)
  show ?thesis
    using a b line_length_nonzero [of flt s 10] line_length_zero [of flt s]
    by auto
qed

theorem cpi_guard_witness:
  "line_length_of dec_float
     ((initial (\<lambda>n. None))\<lparr>cpi_var := ''abc cpi'', text_before := replicate 40 65\<rparr>) = 4
   \<and> line_length_of dec_float
     ((initial (\<lambda>n. None))\<lparr>cpi_var := ''0 cpi'', text_before := replicate 40 65\<rparr>) = 0"
  using cpi_guard [of "(initial (\<lambda>n. None))\<lparr>cpi_var := ''abc cpi'', text_before := replicate 40 65\<rparr>" dec_float]
    cpi_guard [of "(initial (\<lambda>n. None))\<lparr>cpi_var := ''0 cpi'', text_before := replicate 40 65\<rparr>" dec_float]
  by (simp add: initial_def first_word_cpi dec_float_values current_line_def newline_def)

text \<open>
  C5, as stated, fails for a negative left margin, which the spin box takes when
  typed: with a margin of -5 at 10 cpi on an empty line the length is -4.
\<close>

theorem negative_margin_negative_length:
  "line_length_of dec_float ((initial (\<lambda>n. None))\<lparr>left_margin_count := - 5\<rparr>) = - 4
   \<and> \<not> 0 \<le> line_length_of dec_float ((initial (\<lambda>n. None))\<lparr>left_margin_count := - 5\<rparr>)"
proof -
  have n: "numeric_cpi_of dec_float ((initial (\<lambda>n. None))\<lparr>left_margin_count := - 5\<rparr>) = 10"
    by (simp add: numeric_cpi_of_def initial_def first_word_cpi dec_float_values)
  show ?thesis using line_length_nonzero [OF n]
    by (simp add: initial_def current_line_def)
qed

text \<open>
  C5, amended. For a left margin that is not negative and a numeric CPI that is not
  negative (a positive number, 0, or the 10 taken for a text that does not parse), the
  length is at least 0, and it is 0 when the numeric CPI is 0. The computation does not
  raise: \<open>line_length_of\<close> returns a number on every state.
\<close>

theorem line_length_nonnegative:
  assumes "0 \<le> left_margin_count s" and "0 \<le> numeric_cpi_of flt s"
  shows "0 \<le> line_length_of flt s
         \<and> (numeric_cpi_of flt s = 0 \<longrightarrow> line_length_of flt s = 0)"
proof (cases "numeric_cpi_of flt s = 0")
  case True
  then show ?thesis by (simp add: line_length_zero)
next
  case False
  then have pos: "0 < numeric_cpi_of flt s" using assms(2) by simp
  have "line_length_of flt s =
           8 * real_of_int (left_margin_count s) / numeric_cpi_of flt s
           + real (length (current_line s))
             / (if double_wide s then numeric_cpi_of flt s / 2 else numeric_cpi_of flt s)"
    using False by (intro line_length_nonzero) simp_all
  moreover have "0 \<le> 8 * real_of_int (left_margin_count s) / numeric_cpi_of flt s"
    using assms(1) pos by simp
  moreover have "0 \<le> real (length (current_line s))
             / (if double_wide s then numeric_cpi_of flt s / 2 else numeric_cpi_of flt s)"
    using pos by simp
  ultimately show ?thesis using False by simp
qed

theorem line_length_nonnegative_witness:
  "0 \<le> line_length_of dec_float
          ((initial (\<lambda>n. None))\<lparr>left_margin_count := 5, text_before := replicate 40 65\<rparr>)
   \<and> line_length_of dec_float
          ((initial (\<lambda>n. None))\<lparr>cpi_var := ''0 cpi'', left_margin_count := 5\<rparr>) = 0"
proof -
  have a: "numeric_cpi_of dec_float
          ((initial (\<lambda>n. None))\<lparr>left_margin_count := 5, text_before := replicate 40 65\<rparr>) = 10"
    by (simp add: numeric_cpi_of_def initial_def first_word_cpi dec_float_values)
  have b: "numeric_cpi_of dec_float
          ((initial (\<lambda>n. None))\<lparr>cpi_var := ''0 cpi'', left_margin_count := 5\<rparr>) = 0"
    by (simp add: numeric_cpi_of_def initial_def first_word_cpi dec_float_values)
  show ?thesis
    using line_length_nonnegative
            [of "(initial (\<lambda>n. None))\<lparr>left_margin_count := 5, text_before := replicate 40 65\<rparr>"
                dec_float]
          line_length_nonnegative
            [of "(initial (\<lambda>n. None))\<lparr>cpi_var := ''0 cpi'', left_margin_count := 5\<rparr>" dec_float]
          a b
    by (simp add: initial_def)
qed

text \<open>
  C6. The registry's entry for Skip Over Perforation encodes the parameter 0 as the
  fixed sequence 1B 25 53 30, and every parameter \<open>n\<close> from 1 to 9 as 1B 47 n n, a
  different sequence in which the byte \<open>n\<close> stands exactly twice.
\<close>

theorem skip_over_perforation_encoding:
  "map_of OKIDATA_COMMANDS ''Skip Over Perforation'' = Some (Parametric skip_over_perforation)
   \<and> skip_over_perforation 0 = Inr [0x1B, 0x25, 0x53, 0x30]
   \<and> (1 \<le> n \<and> n \<le> 9 \<longrightarrow>
        skip_over_perforation n = Inr [0x1B, 0x47, word_of_int n, word_of_int n]
        \<and> uint (word_of_int n :: byte) = n
        \<and> count_list [0x1B, 0x47, word_of_int n, word_of_int n :: byte] (word_of_int n) = 2
        \<and> skip_over_perforation n \<noteq> skip_over_perforation 0)"
proof -
  have reg: "map_of OKIDATA_COMMANDS ''Skip Over Perforation''
               = Some (Parametric skip_over_perforation)"
    by (simp add: OKIDATA_COMMANDS_def)
  have zero: "skip_over_perforation 0 = Inr [0x1B, 0x25, 0x53, 0x30]"
    by (simp add: skip_over_perforation_def)
  have gen: "skip_over_perforation n = Inr [0x1B, 0x47, word_of_int n, word_of_int n]
        \<and> uint (word_of_int n :: byte) = n
        \<and> count_list [0x1B, 0x47, word_of_int n, word_of_int n :: byte] (word_of_int n) = 2
        \<and> skip_over_perforation n \<noteq> skip_over_perforation 0"
    if "1 \<le> n" "n \<le> 9"
    using that zero
    by (simp add: skip_general byte_uint count_parameter_byte del: count_list.simps)
  from reg zero gen show ?thesis by blast
qed

theorem skip_over_perforation_encoding_witness:
  "skip_over_perforation 5 = Inr [0x1B, 0x47, 5, 5]
   \<and> count_list [0x1B, 0x47, 5, 5 :: byte] 5 = 2
   \<and> skip_over_perforation 0 = Inr [0x1B, 0x25, 0x53, 0x30]"
  using skip_over_perforation_encoding [of 5] by simp

text \<open>
  C7. With a valid port entry: when the double-wide box has been ticked,
  \<open>toggle_double_wide\<close> transmits exactly the Double Width On command, the byte 1F;
  when it has been cleared, it transmits exactly the bytes registered for the selected
  CPI, which are not those of Double Width Off.
\<close>

theorem double_wide_toggle:
  assumes "port_entry s = Some p"
  shows "(double_wide s \<longrightarrow>
            fst (toggle_double_wide flt s) = None
            \<and> attempted (trace (snd (toggle_double_wide flt s)))
                = attempted (trace s) @ [registered ''Double Width On'']
            \<and> registered ''Double Width On'' = [0x1F])
         \<and> (\<not> double_wide s
              \<and> map_of OKIDATA_COMMANDS (''Select '' @ cpi_var s) = Some (Fixed c) \<longrightarrow>
            fst (toggle_double_wide flt s) = None
            \<and> attempted (trace (snd (toggle_double_wide flt s))) = attempted (trace s) @ [c]
            \<and> c \<noteq> registered ''Double Width Off'')"
proof -
  have on: "fst (toggle_double_wide flt s) = None
            \<and> attempted (trace (snd (toggle_double_wide flt s)))
                = attempted (trace s) @ [registered ''Double Width On'']
            \<and> registered ''Double Width On'' = [0x1F]"
    if "double_wide s"
  proof -
    from only_sends_immediately [OF assms, of "[0x1F]" "''[Double Wide ON]''"]
    obtain t a where
      "send_command_immediately (Fixed [0x1F]) ''[Double Wide ON]'' s
         = (None, s\<lparr>trace := t, attempts := a\<rparr>)"
      and "attempted t = attempted (trace s) @ [[0x1F]]"
      unfolding only_sends_def by blast
    then show ?thesis
      using that by (simp add: toggle_double_wide_def registry_fixed registered_settings)
  qed
  have off: "fst (toggle_double_wide flt s) = None
            \<and> attempted (trace (snd (toggle_double_wide flt s))) = attempted (trace s) @ [c]
            \<and> c \<noteq> registered ''Double Width Off''"
    if dw: "\<not> double_wide s"
      and reg: "map_of OKIDATA_COMMANDS (''Select '' @ cpi_var s) = Some (Fixed c)"
  proof -
    from select_entries [OF reg] have c: "c \<noteq> []" "c \<noteq> [0x1B, 0x21, 0x30]"
      by auto
    have n: "cpi_var s \<noteq> ''Double Wide''"
      using reg no_select_double_wide by auto
    have "apply_cpi s = send_command_immediately (Fixed c) ''[CPI]'' s"
      using reg c(1) n by (simp add: apply_cpi_def dict_get_def)
    moreover from only_sends_immediately [OF assms, of c "''[CPI]''"]
    obtain t a where
      "send_command_immediately (Fixed c) ''[CPI]'' s
         = (None, s\<lparr>trace := t, attempts := a\<rparr>)"
      and "attempted t = attempted (trace s) @ [c]"
      unfolding only_sends_def by blast
    ultimately show ?thesis
      using dw c(2) by (simp add: toggle_double_wide_def registered_settings)
  qed
  from on off show ?thesis by blast
qed

theorem double_wide_toggle_witness:
  "attempted (trace (snd (toggle_double_wide dec_float
                            ((initial (\<lambda>n. None))\<lparr>double_wide := True\<rparr>)))) = [[0x1F]]
   \<and> attempted (trace (snd (toggle_double_wide dec_float
                            ((initial (\<lambda>n. None))\<lparr>cpi_var := ''12 cpi''\<rparr>)))) = [[0x1C]]"
proof -
  have r: "map_of OKIDATA_COMMANDS (''Select '' @ ''12 cpi'') = Some (Fixed [0x1C])"
    by (simp add: OKIDATA_COMMANDS_def)
  show ?thesis
    using double_wide_toggle
            [of "(initial (\<lambda>n. None))\<lparr>double_wide := True\<rparr>" 9100 dec_float "[]"]
          double_wide_toggle
            [of "(initial (\<lambda>n. None))\<lparr>cpi_var := ''12 cpi''\<rparr>" 9100 dec_float "[0x1C]"]
          r
    by (simp add: initial_def registered_settings)
qed

text \<open>
  C8. For a name that is no key of the registry, the lookup with the empty default
  gives the empty byte sequence, and the operation built on it does nothing:
  \<open>send_manual_command\<close> and \<open>apply_cpi\<close> return without raising and leave the state,
  the trace included, as it was; in the buffer of \<open>restore_defaults\<close> the unknown CPI
  name contributes no byte.
\<close>

theorem unknown_command_noop:
  assumes "cmd_name \<notin> fst ` set OKIDATA_COMMANDS"
  shows "dict_get OKIDATA_COMMANDS cmd_name (Fixed []) = Fixed []
         \<and> send_manual_command cmd_name s = (None, s)
         \<and> (cmd_name = ''Select '' @ cpi_var s \<longrightarrow>
              apply_cpi s = (None, s)
              \<and> (port_entry s = Some p \<and> skip_over_perforation (skip_perforation s) = Inr sk
                   \<longrightarrow> attempted (trace (snd (restore_defaults s)))
                         = attempted (trace s) @ [[0x18] @ [] @ sk]))"
proof -
  have "map_of OKIDATA_COMMANDS cmd_name = None"
    using assms by (simp add: map_of_eq_None_iff)
  then have g: "dict_get OKIDATA_COMMANDS cmd_name (Fixed []) = Fixed []"
    by (simp add: dict_get_def)
  then have m: "send_manual_command cmd_name s = (None, s)"
    by (simp add: send_manual_command_def)
  have c: "apply_cpi s = (None, s)" if "cmd_name = ''Select '' @ cpi_var s"
    using that g by (simp add: apply_cpi_def)
  have r: "attempted (trace (snd (restore_defaults s))) = attempted (trace s) @ [[0x18] @ [] @ sk]"
    if "cmd_name = ''Select '' @ cpi_var s" "port_entry s = Some p"
       "skip_over_perforation (skip_perforation s) = Inr sk"
  proof -
    have "as_bytes (dict_get OKIDATA_COMMANDS (''Select '' @ cpi_var s) (Fixed [])) = Inr []"
      using that(1) g by simp
    from restore_defaults_result [OF that(2) that(3) this]
    show ?thesis
      by (simp add: attempted_append split: option.splits)
  qed
  from g m c r show ?thesis by blast
qed

theorem unknown_command_noop_witness:
  "send_manual_command ''Select 11 cpi'' ((initial (\<lambda>n. None))\<lparr>cpi_var := ''11 cpi''\<rparr>)
     = (None, (initial (\<lambda>n. None))\<lparr>cpi_var := ''11 cpi''\<rparr>)
   \<and> apply_cpi ((initial (\<lambda>n. None))\<lparr>cpi_var := ''11 cpi''\<rparr>)
     = (None, (initial (\<lambda>n. None))\<lparr>cpi_var := ''11 cpi''\<rparr>)
   \<and> attempted (trace (snd (restore_defaults ((initial (\<lambda>n. None))\<lparr>cpi_var := ''11 cpi''\<rparr>))))
     = [[0x18, 0x1B, 0x25, 0x53, 0x30]]"
proof -
  have k: "''Select 11 cpi'' \<notin> fst ` set OKIDATA_COMMANDS"
    by (simp add: OKIDATA_COMMANDS_def)
  have z: "skip_over_perforation 0 = Inr [0x1B, 0x25, 0x53, 0x30]"
    by (simp add: skip_over_perforation_def)
  show ?thesis
    using unknown_command_noop [OF k, of "(initial (\<lambda>n. None))\<lparr>cpi_var := ''11 cpi''\<rparr>"
                                  9100 "[0x1B, 0x25, 0x53, 0x30]"] z
    by (simp add: initial_def)
qed

text \<open>
  C9. Underline Printing Off and Unidirectional Printing Off are registered with the
  same bytes 1B 2D 00, Emphasized Printing Off and Enhanced Printing Off with the same
  bytes 1B 49; so switching unidirectional printing off hands the network the same
  buffers as switching underline printing off.
\<close>

theorem underline_unidirectional_off_same_bytes:
  "dict_get OKIDATA_COMMANDS ''Underline Printing Off'' (Fixed []) = Fixed [0x1B, 0x2D, 0x00]
   \<and> dict_get OKIDATA_COMMANDS ''Unidirectional Printing Off'' (Fixed []) = Fixed [0x1B, 0x2D, 0x00]
   \<and> dict_get OKIDATA_COMMANDS ''Emphasized Printing Off'' (Fixed []) = Fixed [0x1B, 0x49]
   \<and> dict_get OKIDATA_COMMANDS ''Enhanced Printing Off'' (Fixed []) = Fixed [0x1B, 0x49]
   \<and> attempted (trace (snd (apply_unidirectional (s\<lparr>unidirectional := False\<rparr>))))
       = attempted (trace (snd (apply_underline (s\<lparr>underline_printing := False\<rparr>))))
   \<and> delivered (trace (snd (apply_unidirectional (s\<lparr>unidirectional := False\<rparr>))))
       = delivered (trace (snd (apply_underline (s\<lparr>underline_printing := False\<rparr>))))"
proof -
  have uni: "apply_unidirectional (s\<lparr>unidirectional := False\<rparr>)
      = send_command_immediately (Fixed [0x1B, 0x2D, 0x00]) ''[Unidirectional Printing]''
          (s\<lparr>unidirectional := False\<rparr>)"
    by (simp add: apply_unidirectional_def registry_off)
  have und: "apply_underline (s\<lparr>underline_printing := False\<rparr>)
      = send_command_immediately (Fixed [0x1B, 0x2D, 0x00]) ''[Underline Printing]''
          (s\<lparr>underline_printing := False\<rparr>)"
    by (simp add: apply_underline_def registry_off)
  have a: "attempted (trace (snd (apply_unidirectional (s\<lparr>unidirectional := False\<rparr>))))
       = attempted (trace (snd (apply_underline (s\<lparr>underline_printing := False\<rparr>))))"
    unfolding uni und
    by (simp add: send_command_immediately_trace attempted_append split: option.splits)
  have d: "delivered (trace (snd (apply_unidirectional (s\<lparr>unidirectional := False\<rparr>))))
       = delivered (trace (snd (apply_underline (s\<lparr>underline_printing := False\<rparr>))))"
    unfolding uni und
    by (simp add: send_command_immediately_trace delivered_append split: option.splits)
  from a d show ?thesis by (simp add: registry_off)
qed

theorem underline_unidirectional_off_same_bytes_witness:
  "attempted (trace (snd (apply_unidirectional
       ((initial (\<lambda>n. None))\<lparr>unidirectional := False\<rparr>)))) = [[0x1B, 0x2D, 0x00]]
   \<and> attempted (trace (snd (apply_underline
       ((initial (\<lambda>n. None))\<lparr>underline_printing := False\<rparr>)))) = [[0x1B, 0x2D, 0x00]]"
proof -
  have "attempted (trace (snd (apply_unidirectional
       ((initial (\<lambda>n. None))\<lparr>unidirectional := False\<rparr>)))) = [[0x1B, 0x2D, 0x00]]"
    by (simp add: apply_unidirectional_def registry_off send_command_immediately_trace
        initial_def)
  then show ?thesis
    using underline_unidirectional_off_same_bytes [of "initial (\<lambda>n. None)"] by simp
qed



end
